theory Spec2Isabelle
  imports Complex_Main "HOL-Library.Sublist"
begin

section \<open>Python values used by the emoji suggester\<close>

text \<open>
  A Python \<open>str\<close> is a sequence of Unicode code points, and \<open>len\<close>, slicing, \<open>in\<close>,
  \<open>strip\<close> and \<open>split\<close> all count code points. A string is therefore a list of code
  points; \<open>ascii\<close> embeds an ASCII literal of the source.
\<close>

type_synonym pystr = "nat list"

definition ascii :: "string \<Rightarrow> pystr" where
  "ascii s = map of_char s"

text \<open>
  Exceptions are values: the class of the exception and the text that \<open>str(e)\<close> gives.
  For pydantic's \<open>ValidationError\<close> the text kept is the message of the validator
  that rejected the field.
\<close>

datatype exc_kind =
    ValueError | ValidationError | AttributeError | KeyError | IndexError | TypeError
  | RequestException | HTTPError | JSONDecodeError | UnicodeEncodeError | OSError

datatype exc = Exc (kind: exc_kind) (str_exc: pystr)

definition bind_exc :: "exc + 'a \<Rightarrow> ('a \<Rightarrow> exc + 'b) \<Rightarrow> exc + 'b" where
  "bind_exc m f = (case m of Inl e \<Rightarrow> Inl e | Inr x \<Rightarrow> f x)"

subsection \<open>String methods\<close>

text \<open>
  \<open>str.lower\<close> maps each of \<open>A\<close> .. \<open>Z\<close> to its lower-case letter and leaves every
  other ASCII character alone. On a string with code points beyond ASCII it follows the
  Unicode case tables (where one code point may become several); that part is the
  parameter \<open>ulower\<close>, about which nothing is assumed.
\<close>

definition lower_ascii :: "nat \<Rightarrow> nat" where
  "lower_ascii c = (if 0x41 \<le> c \<and> c \<le> 0x5A then c + 0x20 else c)"

definition lower :: "(pystr \<Rightarrow> pystr) \<Rightarrow> pystr \<Rightarrow> pystr" where
  "lower ulower s = (if list_all (\<lambda>c. c < 0x80) s then map lower_ascii s else ulower s)"

text \<open>The code points for which \<open>str.isspace\<close> holds: what \<open>strip()\<close> and \<open>split()\<close> remove.\<close>

definition isspace :: "nat \<Rightarrow> bool" where
  "isspace c =
     ((0x9 \<le> c \<and> c \<le> 0xD) \<or> (0x1C \<le> c \<and> c \<le> 0x20) \<or> c = 0x85 \<or> c = 0xA0 \<or> c = 0x1680
      \<or> (0x2000 \<le> c \<and> c \<le> 0x200A) \<or> c = 0x2028 \<or> c = 0x2029 \<or> c = 0x202F \<or> c = 0x205F
      \<or> c = 0x3000)"

definition strip :: "pystr \<Rightarrow> pystr" where
  "strip s = rev (dropWhile isspace (rev (dropWhile isspace s)))"

text \<open>
  \<open>s.split()\<close> scans the string once: \<open>cur\<close> is the token being read; a whitespace
  character ends it, and an empty token is never emitted.
\<close>

fun split_from :: "pystr \<Rightarrow> pystr \<Rightarrow> pystr list" where
  "split_from cur [] = (if cur = [] then [] else [cur])"
| "split_from cur (c # cs) =
     (if isspace c then (if cur = [] then split_from [] cs else cur # split_from [] cs)
      else split_from (cur @ [c]) cs)"

definition split :: "pystr \<Rightarrow> pystr list" where
  "split s = split_from [] s"

section \<open>The result type\<close>

record EmojiSuggestion =
  emojis :: "pystr list"
  message :: "pystr"

text \<open>The field validator of \<open>emojis\<close>: fewer than three is an error, the rest is cut at 20.\<close>

definition validate_emojis :: "pystr list \<Rightarrow> exc + pystr list" where
  "validate_emojis v =
     (if length v < 3 then Inl (Exc ValueError (ascii ''At least 3 emojis required''))
      else Inr (take 20 v))"

text \<open>
  Constructing \<open>EmojiSuggestion(emojis=..., message=...)\<close>: pydantic runs the validator on
  the list and stores what it returns; a \<open>ValueError\<close> of the validator leaves the
  constructor as a \<open>ValidationError\<close>. Both fields already have their declared types
  here, so the type check of pydantic passes.
\<close>

definition EmojiSuggestion_init :: "pystr list \<Rightarrow> pystr \<Rightarrow> exc + EmojiSuggestion" where
  "EmojiSuggestion_init es msg =
     (case validate_emojis es of
        Inl e \<Rightarrow> Inl (Exc ValidationError (str_exc e))
      | Inr v \<Rightarrow> Inr \<lparr>emojis = v, message = msg\<rparr>)"

section \<open>Sentiment analysis\<close>

text \<open>
  The string literals of \<open>emoji_library\<close>, code point by code point as the source file
  spells them.
\<close>

definition happy_emojis :: "pystr list" where
  "happy_emojis =
    [[0xF0, 0x178, 0x2DC, 0x20AC], [0xF0, 0x178, 0x2DC, 0x192],
     [0xF0, 0x178, 0x2DC, 0x201E], [0xF0, 0x178, 0x2DC], [0xF0, 0x178, 0x2DC, 0x2020],
     [0xF0, 0x178, 0xA5, 0xB9], [0xF0, 0x178, 0x2DC, 0x2026], [0xF0, 0x178, 0x2DC, 0x201A],
     [0xF0, 0x178, 0xA4, 0xA3], [0xF0, 0x178, 0xA5, 0xB2]]"

definition sad_emojis :: "pystr list" where
  "sad_emojis =
    [[0xF0, 0x178, 0x2DC, 0xA2], [0xF0, 0x178, 0x2DC, 0xAD], [0xF0, 0x178, 0x2DC, 0xA4],
     [0xF0, 0x178, 0x2DC, 0xA0], [0xF0, 0x178, 0x2DC, 0xA1], [0xF0, 0x178, 0xA4, 0xAC],
     [0xF0, 0x178, 0xA4, 0xAF], [0xF0, 0x178, 0x2DC, 0xB3], [0xF0, 0x178, 0xA5, 0xBA],
     [0xF0, 0x178, 0x2DC, 0xA5]]"

definition love_emojis :: "pystr list" where
  "love_emojis =
    [[0xF0, 0x178, 0xA5, 0xB0], [0xF0, 0x178, 0x2DC], [0xE2, 0xA4, 0xEF, 0xB8],
     [0xF0, 0x178, 0xA7, 0xA1], [0xF0, 0x178, 0x2019, 0x203A],
     [0xF0, 0x178, 0x2019, 0x161], [0xF0, 0x178, 0x2019, 0x2122],
     [0xF0, 0x178, 0x2019, 0x153], [0xF0, 0x178, 0xA4, 0x17D], [0xF0, 0x178, 0x2013, 0xA4]]"

definition excited_emojis :: "pystr list" where
  "excited_emojis =
    [[0xF0, 0x178, 0xA4, 0xA9], [0xF0, 0x178, 0xA5, 0xB3], [0xF0, 0x178, 0x2DC, 0x17D],
     [0xF0, 0x178, 0xA4, 0xA0], [0xF0, 0x178, 0x2DC], [0xF0, 0x178, 0x2DC, 0xB8],
     [0xF0, 0x178, 0x2DC, 0xB9], [0xF0, 0x178, 0x2DC, 0xBA], [0xF0, 0x178, 0x2DC, 0xBB],
     [0xF0, 0x178, 0x2DC, 0xBC]]"

definition greeting_emojis :: "pystr list" where
  "greeting_emojis =
    [[0xF0, 0x178, 0x2018, 0x2039], [0xF0, 0x178, 0xA4, 0x161],
     [0xF0, 0x178, 0x2013, 0xEF, 0xB8], [0xE2, 0x153, 0x2039],
     [0xF0, 0x178, 0x2013, 0x2013], [0xF0, 0x178, 0x2018, 0x152], [0xF0, 0x178, 0xA4],
     [0xE2, 0x153, 0x152, 0xEF, 0xB8], [0xF0, 0x178, 0xA4, 0x17E],
     [0xF0, 0x178, 0xA4, 0x178]]"

definition neutral_emojis :: "pystr list" where
  "neutral_emojis =
    [[0xF0, 0x178, 0x2DC], [0xF0, 0x178, 0x2DC, 0x2018], [0xF0, 0x178, 0x2DC, 0xB6],
     [0xF0, 0x178, 0xAB, 0xA5],
     [0xF0, 0x178, 0x2DC, 0xB6, 0xE2, 0x20AC, 0xF0, 0x178, 0x152, 0xAB, 0xEF, 0xB8],
     [0xF0, 0x178, 0x2122, 0x201E], [0xF0, 0x178, 0x2DC], [0xF0, 0x178, 0x2DC, 0x2019],
     [0xF0, 0x178, 0xA4, 0xA8], [0xF0, 0x178, 0xA7]]"

text \<open>
  Both tables are dictionaries whose iteration order is their insertion order, so they
  are association lists in the order of the source; the keys of each are distinct.
\<close>

definition emoji_library :: "(pystr \<times> pystr list) list" where
  "emoji_library =
    [(ascii ''happy'', happy_emojis),
     (ascii ''sad'', sad_emojis),
     (ascii ''love'', love_emojis),
     (ascii ''excited'', excited_emojis),
     (ascii ''greeting'', greeting_emojis),
     (ascii ''neutral'', neutral_emojis)]"

definition sentiment_map :: "(pystr \<times> pystr list) list" where
  "sentiment_map =
    [(ascii ''happy'', map ascii [''happy'', ''joy'', ''good'', ''great'', ''awesome'']),
     (ascii ''sad'', map ascii [''sad'', ''bad'', ''upset'', ''unhappy'']),
     (ascii ''love'', map ascii [''love'', ''heart'', ''adore'', ''cherish'']),
     (ascii ''excited'', map ascii [''excited'', ''wow'', ''amazing'', ''thrilled'']),
     (ascii ''greeting'', map ascii [''hello'', ''hi'', ''hey'', ''greetings''])]"

text \<open>
  The loop of \<open>detect_sentiment\<close> over \<open>sentiment_map.items()\<close>: \<open>keyword in lower_msg\<close>
  is the test for a contiguous substring, \<open>any\<close> is \<open>list_ex\<close>, and the \<open>return\<close> inside
  the loop ends it.
\<close>

fun scan_sentiments :: "(pystr \<times> pystr list) list \<Rightarrow> pystr \<Rightarrow> pystr option" where
  "scan_sentiments [] lower_msg = None"
| "scan_sentiments ((sentiment, keywords) # rest) lower_msg =
     (if list_ex (\<lambda>keyword. sublist keyword lower_msg) keywords then Some sentiment
      else scan_sentiments rest lower_msg)"

definition detect_sentiment :: "(pystr \<Rightarrow> pystr) \<Rightarrow> pystr \<Rightarrow> pystr" where
  "detect_sentiment ulower msg =
     (let lower_msg = lower ulower msg in
      case scan_sentiments sentiment_map lower_msg of
        Some sentiment \<Rightarrow> sentiment
      | None \<Rightarrow> if sublist (ascii ''?'') msg then ascii ''confused'' else ascii ''neutral'')"

text \<open>
  Subscripting a dictionary with a key it lacks raises \<open>KeyError\<close>, whose text is the
  \<open>repr\<close> of the key.
\<close>

definition dict_getitem :: "(pystr \<times> 'v) list \<Rightarrow> pystr \<Rightarrow> exc + 'v" where
  "dict_getitem d k =
     (case map_of d k of
        None \<Rightarrow> Inl (Exc KeyError (ascii [CHR 0x27] @ k @ ascii [CHR 0x27]))
      | Some v \<Rightarrow> Inr v)"

text \<open>
  \<open>emoji_library.get(sentiment, emoji_library['neutral'])\<close>: the default is an argument,
  so it is looked up before \<open>get\<close> runs.
\<close>

definition get_emojis :: "pystr \<Rightarrow> exc + pystr list" where
  "get_emojis sentiment =
     bind_exc (dict_getitem emoji_library (ascii ''neutral''))
       (\<lambda>dflt. Inr (case map_of emoji_library sentiment of Some v \<Rightarrow> v | None \<Rightarrow> dflt))"

section \<open>The Gemini client\<close>

text \<open>
  What \<open>response.json()\<close> can return: the Python value of a JSON document. An object is
  the list of its items (keys distinct, all of them strings); a float stands for its
  value, which nothing here inspects.
\<close>

datatype json =
    JNull | JBool bool | JInt int | JFloat real | JStr pystr
  | JArr "json list" | JObj "(pystr \<times> json) list"

fun type_name :: "json \<Rightarrow> pystr" where
  "type_name JNull = ascii ''NoneType''"
| "type_name (JBool _) = ascii ''bool''"
| "type_name (JInt _) = ascii ''int''"
| "type_name (JFloat _) = ascii ''float''"
| "type_name (JStr _) = ascii ''str''"
| "type_name (JArr _) = ascii ''list''"
| "type_name (JObj _) = ascii ''dict''"

definition not_subscriptable :: "json \<Rightarrow> exc" where
  "not_subscriptable x =
     Exc TypeError (ascii [CHR 0x27] @ type_name x @ ascii [CHR 0x27]
                    @ ascii '' object is not subscriptable'')"

text \<open>\<open>x[key]\<close> for a string \<open>key\<close>: only a dictionary holding the key answers.\<close>

fun getitem_key :: "json \<Rightarrow> pystr \<Rightarrow> exc + json" where
  "getitem_key (JObj d) k = dict_getitem d k"
| "getitem_key (JArr xs) k =
     Inl (Exc TypeError (ascii ''list indices must be integers or slices, not str''))"
| "getitem_key (JStr s) k =
     Inl (Exc TypeError (ascii ''string indices must be integers, not '' @ ascii [CHR 0x27]
                         @ ascii ''str'' @ ascii [CHR 0x27]))"
| "getitem_key x k = Inl (not_subscriptable x)"

text \<open>
  \<open>x[0]\<close>: the first element of a list, the first character of a string; a dictionary
  read from JSON has no key \<open>0\<close>.
\<close>

fun getitem_0 :: "json \<Rightarrow> exc + json" where
  "getitem_0 (JArr []) = Inl (Exc IndexError (ascii ''list index out of range''))"
| "getitem_0 (JArr (x # xs)) = Inr x"
| "getitem_0 (JStr []) = Inl (Exc IndexError (ascii ''string index out of range''))"
| "getitem_0 (JStr (c # cs)) = Inr (JStr [c])"
| "getitem_0 (JObj d) = Inl (Exc KeyError (ascii ''0''))"
| "getitem_0 x = Inl (not_subscriptable x)"

text \<open>
  The response object of \<open>requests\<close>, as far as \<open>generate\<close> reads it: the status line,
  the URL, and what \<open>response.json()\<close> does (raise, or return the decoded body).
\<close>

record response =
  status_code :: nat
  reason :: pystr
  url :: pystr
  json_body :: "exc + json"

fun str_nat :: "nat \<Rightarrow> pystr" where
  "str_nat n = (if n < 10 then [0x30 + n] else str_nat (n div 10) @ [0x30 + n mod 10])"

declare str_nat.simps [simp del]

text \<open>
  \<open>Response.raise_for_status\<close> of \<open>requests\<close>: an \<open>HTTPError\<close> for a status code from 400
  to 599, nothing for any other status.
\<close>

definition raise_for_status :: "response \<Rightarrow> exc + unit" where
  "raise_for_status r =
     (let http_error_msg =
        (if 400 \<le> status_code r \<and> status_code r < 500
         then str_nat (status_code r) @ ascii '' Client Error: '' @ reason r
              @ ascii '' for url: '' @ url r
         else if 500 \<le> status_code r \<and> status_code r < 600
         then str_nat (status_code r) @ ascii '' Server Error: '' @ reason r
              @ ascii '' for url: '' @ url r
         else [])
      in if http_error_msg \<noteq> [] then Inl (Exc HTTPError http_error_msg) else Inr ())"

record GeminiClient =
  api_key :: pystr
  base_url :: pystr

text \<open>The constructor, given what \<open>os.getenv("GEMINI_API_KEY")\<close> returns.\<close>

definition GeminiClient_init :: "pystr option \<Rightarrow> exc + GeminiClient" where
  "GeminiClient_init env_key =
     (case env_key of
        None \<Rightarrow> Inl (Exc ValueError (ascii ''API key not found''))
      | Some k \<Rightarrow>
          if k = [] then Inl (Exc ValueError (ascii ''API key not found''))
          else Inr \<lparr>api_key = k,
                    base_url = ascii ''https://generativelanguage.googleapis.com/v1beta/models/gemini-2.0-flash:generateContent''\<rparr>)"

text \<open>
  The network is a parameter: \<open>post\<close> takes the URL and the JSON body of the request
  (the header and the timeout of 10 seconds are constants of the call) and either raises
  or returns a response.
\<close>

type_synonym transport = "pystr \<Rightarrow> json \<Rightarrow> exc + response"

definition request_body :: "pystr \<Rightarrow> json" where
  "request_body prompt =
     JObj [(ascii ''contents'',
            JArr [JObj [(ascii ''parts'', JArr [JObj [(ascii ''text'', JStr prompt)]])]])]"

text \<open>The expression \<open>data["candidates"][0]["content"]["parts"][0]["text"]\<close>.\<close>

definition text_of_data :: "json \<Rightarrow> exc + json" where
  "text_of_data data =
     bind_exc (getitem_key data (ascii ''candidates'')) (\<lambda>candidates.
     bind_exc (getitem_0 candidates) (\<lambda>candidate.
     bind_exc (getitem_key candidate (ascii ''content'')) (\<lambda>content.
     bind_exc (getitem_key content (ascii ''parts'')) (\<lambda>parts.
     bind_exc (getitem_0 parts) (\<lambda>part.
     getitem_key part (ascii ''text''))))))"

text \<open>The body of the \<open>try\<close> block of \<open>generate\<close>.\<close>

definition generate_try :: "transport \<Rightarrow> GeminiClient \<Rightarrow> pystr \<Rightarrow> exc + json" where
  "generate_try post self prompt =
     bind_exc (post (base_url self @ ascii ''?key='' @ api_key self) (request_body prompt))
       (\<lambda>response.
     bind_exc (raise_for_status response) (\<lambda>_.
     bind_exc (json_body response) (\<lambda>data.
     text_of_data data)))"

definition generate :: "transport \<Rightarrow> GeminiClient \<Rightarrow> pystr \<Rightarrow> exc + json" where
  "generate post self prompt =
     (case generate_try post self prompt of
        Inl e \<Rightarrow> Inl (Exc ValueError (ascii ''API request failed: '' @ str_exc e))
      | Inr text \<Rightarrow> Inr text)"

section \<open>The agent\<close>

text \<open>\<open>response.strip()\<close>: only a string has the method.\<close>

definition response_strip :: "json \<Rightarrow> exc + pystr" where
  "response_strip x =
     (case x of
        JStr s \<Rightarrow> Inr (strip s)
      | _ \<Rightarrow> Inl (Exc AttributeError (ascii [CHR 0x27] @ type_name x @ ascii [CHR 0x27]
                  @ ascii '' object has no attribute '' @ ascii [CHR 0x27] @ ascii ''strip''
                  @ ascii [CHR 0x27])))"

definition make_prompt :: "pystr \<Rightarrow> pystr \<Rightarrow> pystr" where
  "make_prompt sentiment msg =
     ascii ''Suggest 10 emojis for this '' @ sentiment @ ascii '' message: '' @ ascii [CHR 0x27]
     @ msg @ ascii [CHR 0x27] @ ascii ''. Return only emojis separated by spaces.''"

text \<open>The \<open>try\<close> block of \<open>suggest_emojis\<close>.\<close>

definition suggest_try ::
  "(pystr \<Rightarrow> pystr) \<Rightarrow> transport \<Rightarrow> GeminiClient \<Rightarrow> pystr \<Rightarrow> exc + EmojiSuggestion" where
  "suggest_try ulower post gemini msg =
     (let sentiment = detect_sentiment ulower msg;
          prompt = make_prompt sentiment msg
      in bind_exc (generate post gemini prompt) (\<lambda>response.
         bind_exc (response_strip response) (\<lambda>stripped.
         let emojis = split stripped
         in EmojiSuggestion_init (take 15 emojis) msg)))"

text \<open>
  What the \<open>except Exception\<close> block does after its \<open>print\<close>: it classifies the message
  again and builds the suggestion from the library.
\<close>

definition suggest_fallback :: "(pystr \<Rightarrow> pystr) \<Rightarrow> pystr \<Rightarrow> exc + EmojiSuggestion" where
  "suggest_fallback ulower msg =
     (let sentiment = detect_sentiment ulower msg
      in bind_exc (get_emojis sentiment) (\<lambda>es. EmojiSuggestion_init es msg))"

text \<open>
  Standard output is a parameter: \<open>print\<close> takes the line and either returns or raises
  (the stream is closed, or its encoding lacks a character of the line). Nothing guards
  the \<open>print\<close> of the handler, so what it raises leaves \<open>suggest_emojis\<close>.
\<close>

type_synonym stdout = "pystr \<Rightarrow> exc + unit"

definition fallback_notice :: "exc \<Rightarrow> pystr" where
  "fallback_notice e = ascii ''Using fallback emojis due to: '' @ str_exc e"

text \<open>
  \<open>suggest_emojis\<close>: the \<open>try\<close> block and, for any exception \<open>e\<close> it raises, the handler:
  the \<open>print\<close> of the notice, then the fallback.
\<close>

definition suggest_emojis ::
  "(pystr \<Rightarrow> pystr) \<Rightarrow> stdout \<Rightarrow> transport \<Rightarrow> GeminiClient \<Rightarrow> pystr
     \<Rightarrow> exc + EmojiSuggestion" where
  "suggest_emojis ulower print post gemini msg =
     (case suggest_try ulower post gemini msg of
        Inr suggestion \<Rightarrow> Inr suggestion
      | Inl e \<Rightarrow> bind_exc (print (fallback_notice e)) (\<lambda>_. suggest_fallback ulower msg))"

section \<open>Stubs of the network and of standard output for the scenarios\<close>

text \<open>A stream that takes every line, and a stream that has been closed.\<close>

definition working_stdout :: stdout where
  "working_stdout = (\<lambda>line. Inr ())"

definition closed_stdout :: stdout where
  "closed_stdout = (\<lambda>line. Inl (Exc ValueError (ascii ''I/O operation on closed file.'')))"

text \<open>A response body of the shape the client reads, carrying the text \<open>t\<close>.\<close>

definition text_reply :: "pystr \<Rightarrow> json" where
  "text_reply t =
     JObj [(ascii ''candidates'',
            JArr [JObj [(ascii ''content'',
                         JObj [(ascii ''parts'', JArr [JObj [(ascii ''text'', JStr t)]])])]])]"

definition stub_post :: "nat \<Rightarrow> exc + json \<Rightarrow> transport" where
  "stub_post status body =
     (\<lambda>u b. Inr \<lparr>status_code = status, reason = [], url = u, json_body = body\<rparr>)"

definition failing_post :: transport where
  "failing_post = (\<lambda>u b. Inl (Exc RequestException (ascii ''connection refused'')))"

definition demo_client :: GeminiClient where
  "demo_client =
     \<lparr>api_key = ascii ''k'', base_url = ascii ''https://example.invalid/generate''\<rparr>"

text \<open>A generated text of 18 tokens is \<open>eighteen_tokens\<close> joined by spaces.\<close>

definition eighteen_tokens :: "pystr list" where
  "eighteen_tokens =
     [[0x1F600], [0x1F601], [0x1F602], [0x1F603], [0x1F604], [0x1F605], [0x1F606],
      [0x1F607], [0x1F608], [0x1F609], [0x1F60A], [0x1F60B], [0x1F60C], [0x1F60D],
      [0x1F60E], [0x1F60F], [0x1F610], [0x1F611]]"

section \<open>Notions used to state the properties\<close>

text \<open>
  The category at position \<open>i\<close> of \<open>sentiment_map\<close> matches a message when one of its
  keywords is a substring of the lower-cased message.
\<close>

definition category_matches :: "(pystr \<Rightarrow> pystr) \<Rightarrow> pystr \<Rightarrow> nat \<Rightarrow> bool" where
  "category_matches ulower msg i =
     (\<exists>keyword \<in> set (snd (sentiment_map ! i)). sublist keyword (lower ulower msg))"

text \<open>\<open>sep.join(ts)\<close>: a text made of the tokens \<open>ts\<close> with \<open>sep\<close> between them.\<close>

fun join :: "pystr \<Rightarrow> pystr list \<Rightarrow> pystr" where
  "join sep [] = []"
| "join sep [t] = t"
| "join sep (t # u # ts) = t @ sep @ join sep (u # ts)"

text \<open>
  The shape of a response body as the interface describes it: an object whose
  \<open>candidates\<close> is a list, the first candidate an object whose \<open>content\<close> is an object
  whose \<open>parts\<close> is a list, the first part an object with a \<open>text\<close> field. The result is
  that field, or \<open>None\<close> for a body of any other shape.
\<close>

definition has_field :: "json \<Rightarrow> pystr \<Rightarrow> json option" where
  "has_field x k = (case x of JObj d \<Rightarrow> map_of d k | _ \<Rightarrow> None)"

definition first_of_list :: "json \<Rightarrow> json option" where
  "first_of_list x = (case x of JArr (y # ys) \<Rightarrow> Some y | _ \<Rightarrow> None)"

definition spec_text_field :: "json \<Rightarrow> json option" where
  "spec_text_field data =
     (case has_field data (ascii ''candidates'') of
        None \<Rightarrow> None
      | Some candidates \<Rightarrow>
     (case first_of_list candidates of
        None \<Rightarrow> None
      | Some candidate \<Rightarrow>
     (case has_field candidate (ascii ''content'') of
        None \<Rightarrow> None
      | Some content \<Rightarrow>
     (case has_field content (ascii ''parts'') of
        None \<Rightarrow> None
      | Some parts \<Rightarrow>
     (case first_of_list parts of
        None \<Rightarrow> None
      | Some part \<Rightarrow> has_field part (ascii ''text''))))))"

section \<open>Construction of a suggestion\<close>

lemma EmojiSuggestion_init_short:
  "length es < 3 \<Longrightarrow>
   EmojiSuggestion_init es msg = Inl (Exc ValidationError (ascii ''At least 3 emojis required''))"
  by (simp add: EmojiSuggestion_init_def validate_emojis_def)

lemma EmojiSuggestion_init_ok:
  "3 \<le> length es \<Longrightarrow>
   EmojiSuggestion_init es msg = Inr \<lparr>emojis = take 20 es, message = msg\<rparr>"
  by (simp add: EmojiSuggestion_init_def validate_emojis_def)

text \<open>
  Claim C2, as stated: a list whose length is outside 3 .. 20 is rejected. The validator
  rejects only lists shorter than three; a list of 21 is accepted and cut.
\<close>

theorem EmojiSuggestion_init_21_accepted:
  "\<not> (3 \<le> length (replicate 21 [0x1F600::nat]) \<and> length (replicate 21 [0x1F600::nat]) \<le> 20)
   \<and> EmojiSuggestion_init (replicate 21 [0x1F600]) (ascii ''hi'')
       = Inr \<lparr>emojis = replicate 20 [0x1F600], message = ascii ''hi''\<rparr>"
  by (simp add: EmojiSuggestion_init_ok)

text \<open>
  Claim C2, amended: construction fails with a validation error exactly when fewer than
  three emojis are supplied; otherwise it succeeds and keeps the first 20 of them. So
  every constructed suggestion holds between 3 and 20 emojis, which are a prefix of the
  supplied list (the whole list when it has at most 20 elements): same order, nothing
  removed from within, nothing re-sorted.
\<close>

theorem EmojiSuggestion_init_invariant:
  "(length es < 3 \<longrightarrow> (\<exists>m. EmojiSuggestion_init es msg = Inl (Exc ValidationError m)))
   \<and> (3 \<le> length es \<longrightarrow>
        EmojiSuggestion_init es msg = Inr \<lparr>emojis = take 20 es, message = msg\<rparr>)
   \<and> (3 \<le> length es \<and> length es \<le> 20 \<longrightarrow>
        EmojiSuggestion_init es msg = Inr \<lparr>emojis = es, message = msg\<rparr>)
   \<and> (\<forall>s. EmojiSuggestion_init es msg = Inr s \<longrightarrow>
          3 \<le> length (emojis s) \<and> length (emojis s) \<le> 20 \<and> prefix (emojis s) es
          \<and> message s = msg)"
proof (intro conjI allI impI)
  fix s assume ok: "EmojiSuggestion_init es msg = Inr s"
  then have len: "3 \<le> length es"
    by (cases "length es < 3") (simp_all add: EmojiSuggestion_init_short)
  with ok have s: "s = \<lparr>emojis = take 20 es, message = msg\<rparr>"
    by (simp add: EmojiSuggestion_init_ok)
  from s len show "3 \<le> length (emojis s)" by simp
  from s show "length (emojis s) \<le> 20" by simp
  from s show "prefix (emojis s) es" by (simp add: take_is_prefix)
  from s show "message s = msg" by simp
qed (simp_all add: EmojiSuggestion_init_short EmojiSuggestion_init_ok)

theorem EmojiSuggestion_init_invariant_witness:
  "length [[0x1F600], [0x1F603::nat]] < 3
   \<and> (\<exists>m. EmojiSuggestion_init [[0x1F600], [0x1F603]] (ascii ''hi'')
            = Inl (Exc ValidationError m))
   \<and> 3 \<le> length [[0x1F604], [0x1F600], [0x1F600], [0x1F603::nat]]
   \<and> length [[0x1F604], [0x1F600], [0x1F600], [0x1F603::nat]] \<le> 20
   \<and> EmojiSuggestion_init [[0x1F604], [0x1F600], [0x1F600], [0x1F603]] (ascii ''hi'')
       = Inr \<lparr>emojis = [[0x1F604], [0x1F600], [0x1F600], [0x1F603]], message = ascii ''hi''\<rparr>
   \<and> length (emojis \<lparr>emojis = [[0x1F604], [0x1F600], [0x1F600], [0x1F603::nat]],
                      message = ascii ''hi''\<rparr>) \<le> 20"
  using EmojiSuggestion_init_invariant [of "[[0x1F600], [0x1F603]]" "ascii ''hi''"]
    EmojiSuggestion_init_invariant
      [of "[[0x1F604], [0x1F600], [0x1F600], [0x1F603]]" "ascii ''hi''"]
  by simp

text \<open>
  Claim C3: two emojis are rejected with a \<open>ValidationError\<close>; exactly 20 are all kept, in
  order; of 21 exactly the first 20 are kept.
\<close>

theorem EmojiSuggestion_init_boundaries:
  "(length es = 2 \<longrightarrow> (\<exists>m. EmojiSuggestion_init es msg = Inl (Exc ValidationError m)))
   \<and> (length es = 20 \<longrightarrow> EmojiSuggestion_init es msg = Inr \<lparr>emojis = es, message = msg\<rparr>)
   \<and> (length es = 21 \<longrightarrow>
        EmojiSuggestion_init es msg = Inr \<lparr>emojis = take 20 es, message = msg\<rparr>
        \<and> length (take 20 es) = 20)"
  by (simp add: EmojiSuggestion_init_short EmojiSuggestion_init_ok)

theorem EmojiSuggestion_init_boundaries_witness:
  "length [[1], [2::nat]] = 2
   \<and> (\<exists>m. EmojiSuggestion_init [[1], [2]] [] = Inl (Exc ValidationError m))
   \<and> length [[1], [2], [3], [4], [5], [6], [7], [8], [9], [10], [11], [12], [13], [14], [15],
              [16], [17], [18], [19], [20::nat]] = 20
   \<and> EmojiSuggestion_init
        [[1], [2], [3], [4], [5], [6], [7], [8], [9], [10], [11], [12], [13], [14], [15],
         [16], [17], [18], [19], [20]] []
       = Inr \<lparr>emojis =
                [[1], [2], [3], [4], [5], [6], [7], [8], [9], [10], [11], [12], [13], [14],
                 [15], [16], [17], [18], [19], [20]],
              message = []\<rparr>
   \<and> length [[1], [2], [3], [4], [5], [6], [7], [8], [9], [10], [11], [12], [13], [14], [15],
              [16], [17], [18], [19], [20], [21::nat]] = 21
   \<and> EmojiSuggestion_init
        [[1], [2], [3], [4], [5], [6], [7], [8], [9], [10], [11], [12], [13], [14], [15],
         [16], [17], [18], [19], [20], [21]] []
       = Inr \<lparr>emojis =
                [[1], [2], [3], [4], [5], [6], [7], [8], [9], [10], [11], [12], [13], [14],
                 [15], [16], [17], [18], [19], [20]],
              message = []\<rparr>"
  using EmojiSuggestion_init_boundaries [of "[[1], [2]]" "[]"]
    EmojiSuggestion_init_boundaries
      [of "[[1], [2], [3], [4], [5], [6], [7], [8], [9], [10], [11], [12], [13], [14], [15],
            [16], [17], [18], [19], [20]]" "[]"]
    EmojiSuggestion_init_boundaries
      [of "[[1], [2], [3], [4], [5], [6], [7], [8], [9], [10], [11], [12], [13], [14], [15],
            [16], [17], [18], [19], [20], [21]]" "[]"]
  by simp

section \<open>The classifier\<close>

lemma scan_sentiments_None:
  "scan_sentiments tbl lm = None \<longleftrightarrow> (\<forall>(s, kws) \<in> set tbl. \<forall>k \<in> set kws. \<not> sublist k lm)"
  by (induction tbl lm rule: scan_sentiments.induct) (auto simp: list_ex_iff)

lemma scan_sentiments_first:
  "i < length tbl \<Longrightarrow> \<exists>k \<in> set (snd (tbl ! i)). sublist k lm \<Longrightarrow>
   \<forall>j<i. \<forall>k \<in> set (snd (tbl ! j)). \<not> sublist k lm \<Longrightarrow>
   scan_sentiments tbl lm = Some (fst (tbl ! i))"
proof (induction tbl arbitrary: i)
  case Nil
  then show ?case by simp
next
  case (Cons p tbl)
  obtain s kws where p: "p = (s, kws)" by (cases p)
  show ?case
  proof (cases i)
    case 0
    with Cons.prems p show ?thesis by (simp add: list_ex_iff)
  next
    case (Suc n)
    from Cons.prems(3) Suc have head: "\<forall>k \<in> set kws. \<not> sublist k lm"
      using p by (metis nth_Cons_0 snd_conv zero_less_Suc)
    have rest: "\<forall>j<n. \<forall>k \<in> set (snd (tbl ! j)). \<not> sublist k lm"
      using Cons.prems(3) Suc by (metis Suc_mono nth_Cons_Suc)
    from Cons.prems Suc have "scan_sentiments tbl lm = Some (fst (tbl ! n))"
      by (intro Cons.IH rest) simp_all
    with head p Suc show ?thesis by (simp add: list_ex_iff)
  qed
qed

lemma sentiment_map_keys:
  "map fst sentiment_map = map ascii [''happy'', ''sad'', ''love'', ''excited'', ''greeting'']"
  by (simp add: sentiment_map_def)

lemma distinct_sentiment_map: "distinct (map fst sentiment_map)"
  by (simp add: sentiment_map_def ascii_def)

lemma detect_sentiment_at:
  assumes "i < length sentiment_map" "category_matches ulower msg i"
    "\<forall>j<i. \<not> category_matches ulower msg j"
  shows "detect_sentiment ulower msg = fst (sentiment_map ! i)"
  using scan_sentiments_first [of i sentiment_map "lower ulower msg"] assms
  by (simp add: detect_sentiment_def category_matches_def)

lemma least_match:
  assumes "category_matches ulower msg i"
  shows "\<exists>k\<le>i. category_matches ulower msg k \<and> (\<forall>l<k. \<not> category_matches ulower msg l)"
proof -
  let ?k = "LEAST k. category_matches ulower msg k"
  have "category_matches ulower msg ?k" using assms by (rule LeastI)
  moreover have "?k \<le> i" using assms by (rule Least_le)
  moreover have "\<forall>l<?k. \<not> category_matches ulower msg l" using not_less_Least by blast
  ultimately show ?thesis by blast
qed

lemma sublist_single: "sublist [c] s \<longleftrightarrow> c \<in> set s"
  by (induction s) (auto simp: sublist_Cons_right)

text \<open>
  Claim C4: the keyword table is scanned in the order happy, sad, love, excited, greeting
  against the lower-cased message, and the first category with a keyword occurring in it
  is returned. So when two categories match, the answer is a matching category declared
  no later than the earlier of the two, never the later one; and when exactly those two
  match, it is the earlier one.
\<close>

theorem detect_sentiment_first_match:
  "map fst sentiment_map = map ascii [''happy'', ''sad'', ''love'', ''excited'', ''greeting'']
   \<and> (i < length sentiment_map \<and> category_matches ulower msg i
        \<and> (\<forall>j<i. \<not> category_matches ulower msg j) \<longrightarrow>
      detect_sentiment ulower msg = fst (sentiment_map ! i))
   \<and> (i < j \<and> j < length sentiment_map \<and> category_matches ulower msg i
        \<and> category_matches ulower msg j \<longrightarrow>
      (\<exists>k\<le>i. detect_sentiment ulower msg = fst (sentiment_map ! k)
             \<and> category_matches ulower msg k)
      \<and> detect_sentiment ulower msg \<noteq> fst (sentiment_map ! j))
   \<and> (i < j \<and> j < length sentiment_map \<and> category_matches ulower msg i
        \<and> category_matches ulower msg j
        \<and> (\<forall>k<length sentiment_map. category_matches ulower msg k \<longrightarrow> k = i \<or> k = j) \<longrightarrow>
      detect_sentiment ulower msg = fst (sentiment_map ! i))"
proof (intro conjI impI)
  show "map fst sentiment_map = map ascii [''happy'', ''sad'', ''love'', ''excited'', ''greeting'']"
    by (rule sentiment_map_keys)
next
  assume "i < length sentiment_map \<and> category_matches ulower msg i
        \<and> (\<forall>j<i. \<not> category_matches ulower msg j)"
  then show "detect_sentiment ulower msg = fst (sentiment_map ! i)"
    by (simp add: detect_sentiment_at)
next
  assume a: "i < j \<and> j < length sentiment_map \<and> category_matches ulower msg i
        \<and> category_matches ulower msg j"
  then obtain k where k: "k \<le> i" "category_matches ulower msg k"
      "\<forall>l<k. \<not> category_matches ulower msg l"
    using least_match by blast
  with a have d: "detect_sentiment ulower msg = fst (sentiment_map ! k)"
    by (intro detect_sentiment_at) simp_all
  with k show "\<exists>k\<le>i. detect_sentiment ulower msg = fst (sentiment_map ! k)
             \<and> category_matches ulower msg k" by blast
  from a k have "k < length sentiment_map" "j < length sentiment_map" "k \<noteq> j" by simp_all
  then have "map fst sentiment_map ! k \<noteq> map fst sentiment_map ! j"
    using distinct_sentiment_map by (simp add: nth_eq_iff_index_eq del: nth_map)
  with a k d show "detect_sentiment ulower msg \<noteq> fst (sentiment_map ! j)" by simp
next
  assume a: "i < j \<and> j < length sentiment_map \<and> category_matches ulower msg i
        \<and> category_matches ulower msg j
        \<and> (\<forall>k<length sentiment_map. category_matches ulower msg k \<longrightarrow> k = i \<or> k = j)"
  have "\<forall>l<i. \<not> category_matches ulower msg l"
  proof (intro allI impI notI)
    fix l assume l: "l < i" "category_matches ulower msg l"
    from a l have "l < length sentiment_map" by simp
    with a l have "l = i \<or> l = j" by blast
    with a l show False by simp
  qed
  with a show "detect_sentiment ulower msg = fst (sentiment_map ! i)"
    by (intro detect_sentiment_at) simp_all
qed

theorem detect_sentiment_first_match_witness:
  "(0::nat) < 1 \<and> 1 < length sentiment_map
   \<and> category_matches id (ascii ''sad but happy'') 0
   \<and> category_matches id (ascii ''sad but happy'') 1
   \<and> \<not> category_matches id (ascii ''sad but happy'') 2
   \<and> \<not> category_matches id (ascii ''sad but happy'') 3
   \<and> \<not> category_matches id (ascii ''sad but happy'') 4
   \<and> fst (sentiment_map ! 0) = ascii ''happy'' \<and> fst (sentiment_map ! 1) = ascii ''sad''
   \<and> detect_sentiment id (ascii ''sad but happy'') = ascii ''happy''
   \<and> detect_sentiment id (ascii ''sad but happy'') \<noteq> ascii ''sad''"
proof -
  let ?m = "ascii ''sad but happy''"
  have len: "length sentiment_map = 5"
    by (simp add: sentiment_map_def)
  have m0: "category_matches id ?m 0" and m1: "category_matches id ?m 1"
    and m2: "\<not> category_matches id ?m 2" and m3: "\<not> category_matches id ?m 3"
    and m4: "\<not> category_matches id ?m 4"
    by (simp_all add: category_matches_def lower_def lower_ascii_def sentiment_map_def ascii_def
        sublist_code)
  have none: "\<forall>j<(0::nat). \<not> category_matches id ?m j"
    by simp
  have only: "\<forall>k<length sentiment_map. category_matches id ?m k \<longrightarrow> k = 0 \<or> k = 1"
  proof (intro allI impI)
    fix k assume "k < length sentiment_map" and k: "category_matches id ?m k"
    with len have "k = 0 \<or> k = 1 \<or> k = 2 \<or> k = 3 \<or> k = 4" by arith
    with k m2 m3 m4 show "k = 0 \<or> k = 1" by blast
  qed
  have k0: "fst (sentiment_map ! 0) = ascii ''happy''"
    and k1: "fst (sentiment_map ! 1) = ascii ''sad''"
    by (simp_all add: sentiment_map_def)
  have i: "(0::nat) < 1" and j: "1 < length sentiment_map" and i': "0 < length sentiment_map"
    using len by simp_all
  note scan = detect_sentiment_first_match [of 0 id ?m 1]
  have first: "detect_sentiment id ?m = fst (sentiment_map ! 0)"
    using scan i' m0 none by blast
  have exact: "detect_sentiment id ?m = fst (sentiment_map ! 0)"
    using scan i j m0 m1 only by blast
  have later: "detect_sentiment id ?m \<noteq> fst (sentiment_map ! 1)"
    using scan i j m0 m1 by blast
  from i j m0 m1 m2 m3 m4 k0 k1 first exact later show ?thesis
    by simp
qed

text \<open>
  Claim C5: when no keyword of any category occurs in the lower-cased message, the
  answer is \<open>confused\<close> if the message contains the character \<open>?\<close> (code point
  0x3F) and \<open>neutral\<close> otherwise.
\<close>

theorem detect_sentiment_no_match:
  "(\<forall>(sentiment, keywords) \<in> set sentiment_map.
      \<forall>keyword \<in> set keywords. \<not> sublist keyword (lower ulower msg)) \<Longrightarrow>
   detect_sentiment ulower msg
     = (if 0x3F \<in> set msg then ascii ''confused'' else ascii ''neutral'')"
  using scan_sentiments_None [of sentiment_map "lower ulower msg"]
  by (simp add: detect_sentiment_def ascii_def sublist_single)

theorem detect_sentiment_no_match_witness:
  "0x3F \<in> set (ascii ''wat is dis?'')
   \<and> detect_sentiment id (ascii ''wat is dis?'') = ascii ''confused''
   \<and> 0x3F \<notin> set (ascii ''banana'')
   \<and> detect_sentiment id (ascii ''banana'') = ascii ''neutral''"
proof -
  have h1: "\<forall>(sentiment, keywords) \<in> set sentiment_map.
      \<forall>keyword \<in> set keywords. \<not> sublist keyword (lower id (ascii ''wat is dis?''))"
    by (simp add: lower_def lower_ascii_def sentiment_map_def ascii_def sublist_code)
  have h2: "\<forall>(sentiment, keywords) \<in> set sentiment_map.
      \<forall>keyword \<in> set keywords. \<not> sublist keyword (lower id (ascii ''banana''))"
    by (simp add: lower_def lower_ascii_def sentiment_map_def ascii_def sublist_code)
  have q1: "0x3F \<in> set (ascii ''wat is dis?'')" and q2: "0x3F \<notin> set (ascii ''banana'')"
    by (simp_all add: ascii_def)
  show ?thesis
    using q1 q2 detect_sentiment_no_match [OF h1] detect_sentiment_no_match [OF h2]
    by simp
qed

section \<open>The fallback\<close>

lemma get_emojis_total: "\<exists>es. get_emojis sentiment = Inr es \<and> length es = 10"
  by (simp add: get_emojis_def bind_exc_def dict_getitem_def emoji_library_def ascii_def
      happy_emojis_def sad_emojis_def love_emojis_def excited_emojis_def greeting_emojis_def
      neutral_emojis_def)

lemma get_emojis_missing:
  "map_of emoji_library sentiment = None \<Longrightarrow> get_emojis sentiment = Inr neutral_emojis"
  by (simp add: get_emojis_def bind_exc_def dict_getitem_def)
     (simp add: emoji_library_def ascii_def)

lemma get_emojis_present:
  "map_of emoji_library sentiment = Some es \<Longrightarrow> get_emojis sentiment = Inr es"
  by (simp add: get_emojis_def bind_exc_def dict_getitem_def)
     (simp add: emoji_library_def ascii_def)

lemma confused_not_in_library: "map_of emoji_library (ascii ''confused'') = None"
  by (simp add: emoji_library_def ascii_def)


lemma neutral_in_library: "map_of emoji_library (ascii ''neutral'') = Some neutral_emojis"
  by (simp add: emoji_library_def ascii_def)

lemma suggest_fallback_eq:
  "get_emojis (detect_sentiment ulower msg) = Inr es \<Longrightarrow> length es = 10 \<Longrightarrow>
   suggest_fallback ulower msg = Inr \<lparr>emojis = es, message = msg\<rparr>"
  by (simp add: suggest_fallback_def bind_exc_def EmojiSuggestion_init_ok)

lemma suggest_fallback_total: "\<exists>s. suggest_fallback ulower msg = Inr s"
  using get_emojis_total [of "detect_sentiment ulower msg"] suggest_fallback_eq by blast

text \<open>
  Claim C6: whatever the sentiment (the seven categories included, \<open>confused\<close> and
  \<open>neutral\<close> among them), the lookup \<open>get_emojis\<close> returns a list of at least three
  emojis, and building the suggestion from that list succeeds and keeps the whole list.
\<close>

theorem get_emojis_fallback_complete:
  "\<exists>es. get_emojis sentiment = Inr es \<and> 3 \<le> length es
        \<and> EmojiSuggestion_init es msg = Inr \<lparr>emojis = es, message = msg\<rparr>"
proof -
  obtain es where "get_emojis sentiment = Inr es" "length es = 10"
    using get_emojis_total by blast
  then show ?thesis by (simp add: EmojiSuggestion_init_ok)
qed

theorem get_emojis_fallback_complete_witness:
  "get_emojis (ascii ''confused'') = Inr neutral_emojis \<and> 3 \<le> length neutral_emojis
   \<and> EmojiSuggestion_init neutral_emojis (ascii ''why?'')
       = Inr \<lparr>emojis = neutral_emojis, message = ascii ''why?''\<rparr>"
  using get_emojis_fallback_complete [of "ascii ''confused''" "ascii ''why?''"]
    get_emojis_missing [OF confused_not_in_library]
  by auto

section \<open>The orchestrator\<close>

lemma str_nat_nonempty: "str_nat n \<noteq> []"
  by (subst str_nat.simps) simp

lemma raise_for_status_ok:
  "\<not> (400 \<le> status_code r \<and> status_code r < 600) \<Longrightarrow> raise_for_status r = Inr ()"
  by (auto simp: raise_for_status_def)

lemma raise_for_status_error:
  "400 \<le> status_code r \<Longrightarrow> status_code r < 600 \<Longrightarrow>
   \<exists>m. raise_for_status r = Inl (Exc HTTPError m)"
  by (auto simp: raise_for_status_def Let_def str_nat_nonempty)

lemma generate_text_reply:
  "\<not> (400 \<le> st \<and> st < 600) \<Longrightarrow>
   generate (stub_post st (Inr (text_reply t))) c p = Inr (JStr t)"
  by (simp add: generate_def generate_try_def stub_post_def bind_exc_def raise_for_status_ok)
     (simp add: text_of_data_def bind_exc_def text_reply_def dict_getitem_def ascii_def)

lemma generate_failing_post:
  "generate failing_post c p
     = Inl (Exc ValueError (ascii ''API request failed: connection refused''))"
  by (simp add: generate_def generate_try_def failing_post_def bind_exc_def ascii_def)

lemma suggest_try_generate_fails:
  "generate post gemini (make_prompt (detect_sentiment ulower msg) msg) = Inl e \<Longrightarrow>
   suggest_try ulower post gemini msg = Inl e"
  by (simp add: suggest_try_def bind_exc_def)

lemma suggest_try_few_tokens:
  "generate post gemini (make_prompt (detect_sentiment ulower msg) msg) = Inr (JStr t) \<Longrightarrow>
   length (split (strip t)) < 3 \<Longrightarrow>
   suggest_try ulower post gemini msg
     = Inl (Exc ValidationError (ascii ''At least 3 emojis required''))"
  by (simp add: suggest_try_def bind_exc_def response_strip_def EmojiSuggestion_init_short)

text \<open>
  The handler: once the \<open>try\<close> block has raised \<open>e\<close>, the result is that of the \<open>print\<close>
  of the notice followed by the fallback.
\<close>

lemma suggest_emojis_handler:
  "suggest_try ulower post gemini msg = Inl e \<Longrightarrow>
   suggest_emojis ulower print post gemini msg
     = bind_exc (print (fallback_notice e)) (\<lambda>_. suggest_fallback ulower msg)"
  by (simp add: suggest_emojis_def)

lemma suggest_emojis_printed:
  "suggest_try ulower post gemini msg = Inl e \<Longrightarrow> print (fallback_notice e) = Inr () \<Longrightarrow>
   suggest_emojis ulower print post gemini msg = suggest_fallback ulower msg"
  by (simp add: suggest_emojis_handler bind_exc_def)

lemma suggest_emojis_print_raised:
  "suggest_try ulower post gemini msg = Inl e \<Longrightarrow> print (fallback_notice e) = Inl x \<Longrightarrow>
   suggest_emojis ulower print post gemini msg = Inl x"
  by (simp add: suggest_emojis_handler bind_exc_def)

text \<open>
  So \<open>suggest_emojis\<close> raises exactly when the \<open>try\<close> block raises and the \<open>print\<close> of the
  notice raises too; in every other case it returns a suggestion.
\<close>

lemma suggest_emojis_raises_iff:
  "(\<exists>x. suggest_emojis ulower print post gemini msg = Inl x) \<longleftrightarrow>
   (\<exists>e x. suggest_try ulower post gemini msg = Inl e \<and> print (fallback_notice e) = Inl x)"
proof (cases "suggest_try ulower post gemini msg")
  case (Inr s)
  then show ?thesis by (simp add: suggest_emojis_def)
next
  case (Inl e)
  obtain s where s: "suggest_fallback ulower msg = Inr s"
    using suggest_fallback_total by blast
  show ?thesis
  proof (cases "print (fallback_notice e)")
    case (Inl x)
    with \<open>suggest_try ulower post gemini msg = Inl e\<close> show ?thesis
      by (simp add: suggest_emojis_print_raised)
  next
    case (Inr u)
    with \<open>suggest_try ulower post gemini msg = Inl e\<close> s show ?thesis
      by (simp add: suggest_emojis_handler bind_exc_def)
  qed
qed


lemma detect_wat_is_dis:
  "detect_sentiment ulower (ascii ''wat is dis?'') = ascii ''confused''"
  by (simp add: detect_sentiment_def lower_def lower_ascii_def sentiment_map_def ascii_def
      sublist_code)

lemma detect_banana:
  "detect_sentiment ulower (ascii ''banana'') = ascii ''neutral''"
  by (simp add: detect_sentiment_def lower_def lower_ascii_def sentiment_map_def ascii_def
      sublist_code)

lemma length_neutral_emojis: "length neutral_emojis = 10"
  by (simp add: neutral_emojis_def)


lemma suggest_fallback_banana:
  "suggest_fallback ulower (ascii ''banana'')
     = Inr \<lparr>emojis = neutral_emojis, message = ascii ''banana''\<rparr>"
  by (simp add: suggest_fallback_eq detect_banana get_emojis_present neutral_in_library
      length_neutral_emojis)


text \<open>
  Claim C1 says that \<open>suggest_emojis\<close> never raises. The handler prints before it builds
  the fallback, and that \<open>print\<close> is not guarded. Here the reply holds two tokens, so the
  constructor raises inside the \<open>try\<close> block; with standard output closed the \<open>print\<close> of
  the notice raises and its \<open>ValueError\<close> leaves \<open>suggest_emojis\<close>. On the same input a
  stream that takes the line lets the call return the neutral fallback.
\<close>

theorem suggest_emojis_raises_on_closed_stdout:
  "suggest_try id (stub_post 200 (Inr (text_reply [0x1F600, 0x20, 0x1F603]))) demo_client
       (ascii ''banana'')
     = Inl (Exc ValidationError (ascii ''At least 3 emojis required''))
   \<and> suggest_emojis id closed_stdout
       (stub_post 200 (Inr (text_reply [0x1F600, 0x20, 0x1F603]))) demo_client (ascii ''banana'')
     = Inl (Exc ValueError (ascii ''I/O operation on closed file.''))
   \<and> suggest_emojis id working_stdout
       (stub_post 200 (Inr (text_reply [0x1F600, 0x20, 0x1F603]))) demo_client (ascii ''banana'')
     = Inr \<lparr>emojis = neutral_emojis, message = ascii ''banana''\<rparr>"
proof -
  let ?post = "stub_post 200 (Inr (text_reply [0x1F600, 0x20, 0x1F603]))"
  have g: "generate ?post demo_client
             (make_prompt (detect_sentiment id (ascii ''banana'')) (ascii ''banana''))
           = Inr (JStr [0x1F600, 0x20, 0x1F603])"
    by (simp add: generate_text_reply)
  have l: "length (split (strip [0x1F600, 0x20, 0x1F603])) < 3"
    by (simp add: split_def strip_def isspace_def)
  have t: "suggest_try id ?post demo_client (ascii ''banana'')
             = Inl (Exc ValidationError (ascii ''At least 3 emojis required''))"
    using g l by (rule suggest_try_few_tokens)
  have closed: "suggest_emojis id closed_stdout ?post demo_client (ascii ''banana'')
                  = Inl (Exc ValueError (ascii ''I/O operation on closed file.''))"
    using t by (rule suggest_emojis_print_raised) (simp add: closed_stdout_def)
  have working: "suggest_emojis id working_stdout ?post demo_client (ascii ''banana'')
                   = suggest_fallback id (ascii ''banana'')"
    using t by (rule suggest_emojis_printed) (simp add: working_stdout_def)
  from t closed working show ?thesis
    by (simp add: suggest_fallback_banana)
qed




text \<open>
  Claim C10: \<open>get_emojis\<close> answers a sentiment that has no entry in the library with
  the list of \<open>neutral\<close>. The library has no entry for \<open>confused\<close>, so a message
  classified as \<open>confused\<close> gets the neutral emojis on the fallback path: after the
  \<open>print\<close> of the handler, the suggestion built is the neutral one.
\<close>

theorem get_emojis_default_neutral:
  "(map_of emoji_library sentiment = None \<longrightarrow> get_emojis sentiment = Inr neutral_emojis)
   \<and> map_of emoji_library (ascii ''confused'') = None
   \<and> get_emojis (ascii ''confused'') = Inr neutral_emojis
   \<and> get_emojis (ascii ''neutral'') = Inr neutral_emojis
   \<and> (detect_sentiment ulower msg = ascii ''confused'' \<longrightarrow>
        suggest_fallback ulower msg = Inr \<lparr>emojis = neutral_emojis, message = msg\<rparr>)
   \<and> (\<forall>e. detect_sentiment ulower msg = ascii ''confused''
          \<and> suggest_try ulower post gemini msg = Inl e \<longrightarrow>
        suggest_emojis ulower print post gemini msg
          = bind_exc (print (fallback_notice e))
              (\<lambda>_. Inr \<lparr>emojis = neutral_emojis, message = msg\<rparr>))
   \<and> (\<forall>e. detect_sentiment ulower msg = ascii ''confused''
          \<and> suggest_try ulower post gemini msg = Inl e
          \<and> print (fallback_notice e) = Inr () \<longrightarrow>
        suggest_emojis ulower print post gemini msg
          = Inr \<lparr>emojis = neutral_emojis, message = msg\<rparr>)"
proof -
  have c: "get_emojis (ascii ''confused'') = Inr neutral_emojis"
    by (rule get_emojis_missing [OF confused_not_in_library])
  have fb: "suggest_fallback ulower msg = Inr \<lparr>emojis = neutral_emojis, message = msg\<rparr>"
    if "detect_sentiment ulower msg = ascii ''confused''"
    using that c by (simp add: suggest_fallback_eq length_neutral_emojis)
  have handler: "suggest_emojis ulower print post gemini msg
          = bind_exc (print (fallback_notice e))
              (\<lambda>_. Inr \<lparr>emojis = neutral_emojis, message = msg\<rparr>)"
    if "detect_sentiment ulower msg = ascii ''confused''"
      and "suggest_try ulower post gemini msg = Inl e" for e
    using that fb by (simp add: suggest_emojis_handler)
  have printed: "suggest_emojis ulower print post gemini msg
          = Inr \<lparr>emojis = neutral_emojis, message = msg\<rparr>"
    if "detect_sentiment ulower msg = ascii ''confused''"
      and "suggest_try ulower post gemini msg = Inl e"
      and "print (fallback_notice e) = Inr ()" for e
    using that handler by (simp add: bind_exc_def)
  from c fb handler printed show ?thesis
    by (simp add: get_emojis_missing confused_not_in_library get_emojis_present
        neutral_in_library)
qed

theorem get_emojis_default_neutral_witness:
  "map_of emoji_library (ascii ''confused'') = None
   \<and> detect_sentiment id (ascii ''wat is dis?'') = ascii ''confused''
   \<and> suggest_try id failing_post demo_client (ascii ''wat is dis?'')
       = Inl (Exc ValueError (ascii ''API request failed: connection refused''))
   \<and> working_stdout
        (fallback_notice (Exc ValueError (ascii ''API request failed: connection refused'')))
       = Inr ()
   \<and> suggest_emojis id working_stdout failing_post demo_client (ascii ''wat is dis?'')
       = Inr \<lparr>emojis = neutral_emojis, message = ascii ''wat is dis?''\<rparr>"
proof -
  have t: "suggest_try id failing_post demo_client (ascii ''wat is dis?'')
       = Inl (Exc ValueError (ascii ''API request failed: connection refused''))"
    by (rule suggest_try_generate_fails) (rule generate_failing_post)
  have p: "working_stdout
        (fallback_notice (Exc ValueError (ascii ''API request failed: connection refused'')))
       = Inr ()"
    by (simp add: working_stdout_def)
  have d: "detect_sentiment id (ascii ''wat is dis?'') = ascii ''confused''"
    by (rule detect_wat_is_dis)
  note library =
    get_emojis_default_neutral
      [of "ascii ''confused''" id "ascii ''wat is dis?''" failing_post demo_client
          working_stdout]
  have r: "suggest_emojis id working_stdout failing_post demo_client (ascii ''wat is dis?'')
       = Inr \<lparr>emojis = neutral_emojis, message = ascii ''wat is dis?''\<rparr>"
    using library t p d by blast
  have n: "map_of emoji_library (ascii ''confused'') = None"
    using library by blast
  from n d t p r show ?thesis
    by (intro conjI)
qed

section \<open>Splitting the generated text\<close>

lemma split_from_tokens:
  "\<forall>c \<in> set cur. \<not> isspace c \<Longrightarrow> t \<in> set (split_from cur s) \<Longrightarrow>
   t \<noteq> [] \<and> (\<forall>c \<in> set t. \<not> isspace c)"
proof (induction s arbitrary: cur)
  case Nil
  then show ?case by (auto split: if_splits)
next
  case (Cons c cs)
  show ?case
  proof (cases "isspace c")
    case True
    with Cons.prems have "t = cur \<and> cur \<noteq> [] \<or> t \<in> set (split_from [] cs)"
      by (auto split: if_splits)
    then show ?thesis
      using Cons.prems(1) Cons.IH [of "[]"] by auto
  next
    case False
    with Cons.prems have "t \<in> set (split_from (cur @ [c]) cs)" by simp
    moreover from False Cons.prems(1) have "\<forall>x \<in> set (cur @ [c]). \<not> isspace x" by simp
    ultimately show ?thesis by (rule Cons.IH [rotated])
  qed
qed

lemma concat_split_from:
  "concat (split_from cur s) = cur @ filter (\<lambda>c. \<not> isspace c) s"
  by (induction s arbitrary: cur) simp_all

lemma filter_dropWhile_isspace:
  "filter (\<lambda>c. \<not> isspace c) (dropWhile isspace s) = filter (\<lambda>c. \<not> isspace c) s"
  by (induction s) simp_all

lemma filter_strip: "filter (\<lambda>c. \<not> isspace c) (strip s) = filter (\<lambda>c. \<not> isspace c) s"
proof -
  have "filter (\<lambda>c. \<not> isspace c) (strip s)
      = rev (filter (\<lambda>c. \<not> isspace c) (dropWhile isspace (rev (dropWhile isspace s))))"
    by (simp add: strip_def rev_filter)
  also have "\<dots> = rev (filter (\<lambda>c. \<not> isspace c) (rev (dropWhile isspace s)))"
    by (simp only: filter_dropWhile_isspace)
  also have "\<dots> = filter (\<lambda>c. \<not> isspace c) s"
    by (simp add: rev_filter [symmetric] filter_dropWhile_isspace)
  finally show ?thesis .
qed

lemma split_from_spaces:
  "\<forall>c \<in> set ws. isspace c \<Longrightarrow> split_from cur ws = (if cur = [] then [] else [cur])"
  by (induction ws arbitrary: cur) simp_all

lemma split_from_append_spaces:
  "\<forall>c \<in> set ws. isspace c \<Longrightarrow> split_from cur (s @ ws) = split_from cur s"
  by (induction s arbitrary: cur) (simp_all add: split_from_spaces)

lemma split_from_leading_spaces:
  "\<forall>c \<in> set ws. isspace c \<Longrightarrow> split_from [] (ws @ s) = split_from [] s"
  by (induction ws) simp_all

lemma split_from_token:
  "\<forall>c \<in> set t. \<not> isspace c \<Longrightarrow> split_from cur (t @ s) = split_from (cur @ t) s"
  by (induction t arbitrary: cur) simp_all

lemma split_from_dropWhile: "split_from [] (dropWhile isspace s) = split_from [] s"
  by (induction s) simp_all

lemma split_strip: "split (strip s) = split s"
proof -
  let ?d = "dropWhile isspace s"
  have d: "?d = strip s @ rev (takeWhile isspace (rev ?d))"
    by (simp add: strip_def rev_append [symmetric] del: rev_append)
  have "\<forall>c \<in> set (rev (takeWhile isspace (rev ?d))). isspace c"
    by (auto dest: set_takeWhileD)
  then have "split_from [] (strip s @ rev (takeWhile isspace (rev ?d))) = split_from [] (strip s)"
    by (rule split_from_append_spaces)
  with d have "split_from [] ?d = split_from [] (strip s)" by simp
  then show ?thesis by (simp add: split_def split_from_dropWhile)
qed

lemma split_join:
  assumes sep: "sep \<noteq> []" "\<forall>c \<in> set sep. isspace c"
  shows "\<forall>t \<in> set ts. t \<noteq> [] \<and> (\<forall>c \<in> set t. \<not> isspace c) \<Longrightarrow> split (join sep ts) = ts"
proof (induction ts rule: induct_list012)
  case 1
  then show ?case by (simp add: split_def)
next
  case (2 t)
  then have "split_from [] (t @ []) = split_from ([] @ t) []"
    by (intro split_from_token) simp
  with 2 show ?case by (simp add: split_def)
next
  case (3 t u ts)
  from sep obtain w ws where w: "sep = w # ws" "isspace w" "\<forall>c \<in> set ws. isspace c"
    by (cases sep) auto
  let ?R = "join sep (u # ts)"
  from 3 have t: "t \<noteq> []" "\<forall>c \<in> set t. \<not> isspace c" by simp_all
  from 3 have rest: "split_from [] ?R = u # ts" by (simp add: split_def)
  have "split_from [] (t @ (sep @ ?R)) = split_from ([] @ t) (sep @ ?R)"
    using t(2) by (rule split_from_token)
  also have "\<dots> = t # split_from [] (ws @ ?R)"
    using w t(1) by simp
  also have "split_from [] (ws @ ?R) = split_from [] ?R"
    using w(3) by (rule split_from_leading_spaces)
  finally show ?case using rest by (simp add: split_def)
qed

text \<open>
  Claim C7: on the generation path the returned text is split at whitespace. Every token
  is non-empty and free of whitespace, and the tokens in order are exactly the
  non-whitespace characters of the text in order. With at least three tokens the
  suggestion holds the first 15 of them (all of them when there are fewer). So for a text
  of 18 tokens separated by whitespace the suggestion holds exactly the first 15, in
  their order.
\<close>

theorem suggest_emojis_first_15_tokens:
  "generate post gemini (make_prompt (detect_sentiment ulower msg) msg) = Inr (JStr text) \<Longrightarrow>
   (\<forall>t \<in> set (split (strip text)). t \<noteq> [] \<and> (\<forall>c \<in> set t. \<not> isspace c))
   \<and> concat (split (strip text)) = filter (\<lambda>c. \<not> isspace c) text
   \<and> (3 \<le> length (split (strip text)) \<longrightarrow>
        suggest_emojis ulower print post gemini msg
          = Inr \<lparr>emojis = take 15 (split (strip text)), message = msg\<rparr>)
   \<and> ((\<forall>t \<in> set ts. t \<noteq> [] \<and> (\<forall>c \<in> set t. \<not> isspace c))
        \<and> sep \<noteq> [] \<and> (\<forall>c \<in> set sep. isspace c) \<and> text = join sep ts \<and> length ts = 18 \<longrightarrow>
        suggest_emojis ulower print post gemini msg = Inr \<lparr>emojis = take 15 ts, message = msg\<rparr>
        \<and> length (take 15 ts) = 15)"
proof -
  assume gen: "generate post gemini (make_prompt (detect_sentiment ulower msg) msg)
                 = Inr (JStr text)"
  have run: "suggest_emojis ulower print post gemini msg
               = Inr \<lparr>emojis = take 15 (split (strip text)), message = msg\<rparr>"
    if "3 \<le> length (split (strip text))"
  proof -
    from that have "3 \<le> length (take 15 (split (strip text)))" by simp
    then have "EmojiSuggestion_init (take 15 (split (strip text))) msg
                 = Inr \<lparr>emojis = take 20 (take 15 (split (strip text))), message = msg\<rparr>"
      by (rule EmojiSuggestion_init_ok)
    with gen show ?thesis
      by (simp add: suggest_emojis_def suggest_try_def bind_exc_def response_strip_def)
  qed
  have tokens: "\<forall>t \<in> set (split (strip text)). t \<noteq> [] \<and> (\<forall>c \<in> set t. \<not> isspace c)"
    using split_from_tokens [of "[]"] by (auto simp: split_def)
  have order: "concat (split (strip text)) = filter (\<lambda>c. \<not> isspace c) text"
    by (simp add: split_def concat_split_from filter_strip)
  have joined: "suggest_emojis ulower print post gemini msg
                  = Inr \<lparr>emojis = take 15 ts, message = msg\<rparr> \<and> length (take 15 ts) = 15"
    if "(\<forall>t \<in> set ts. t \<noteq> [] \<and> (\<forall>c \<in> set t. \<not> isspace c))
        \<and> sep \<noteq> [] \<and> (\<forall>c \<in> set sep. isspace c) \<and> text = join sep ts \<and> length ts = 18"
  proof -
    from that have "split (strip text) = ts"
      by (simp add: split_strip split_join)
    with that run show ?thesis by simp
  qed
  from run tokens order joined show ?thesis by blast
qed


theorem suggest_emojis_first_15_tokens_witness:
  "length eighteen_tokens = 18
   \<and> suggest_emojis id closed_stdout
       (stub_post 200 (Inr (text_reply (join [0x20] eighteen_tokens)))) demo_client
       (ascii ''I feel great'')
     = Inr \<lparr>emojis = take 15 eighteen_tokens, message = ascii ''I feel great''\<rparr>"
proof -
  have g: "generate (stub_post 200 (Inr (text_reply (join [0x20] eighteen_tokens)))) demo_client
             (make_prompt (detect_sentiment id (ascii ''I feel great'')) (ascii ''I feel great''))
           = Inr (JStr (join [0x20] eighteen_tokens))"
    by (simp add: generate_text_reply)
  have toks: "\<forall>t \<in> set eighteen_tokens. t \<noteq> [] \<and> (\<forall>c \<in> set t. \<not> isspace c)"
    by (simp add: eighteen_tokens_def isspace_def)
  have sep: "[0x20::nat] \<noteq> []" "\<forall>c \<in> set [0x20::nat]. isspace c"
    by (simp_all add: isspace_def)
  have len: "length eighteen_tokens = 18" by (simp add: eighteen_tokens_def)
  show ?thesis
    using suggest_emojis_first_15_tokens
        [OF g, where ts = eighteen_tokens and sep = "[0x20]" and print = closed_stdout]
      toks sep len
    by simp
qed

section \<open>The client\<close>

lemma getitem_key_field:
  "has_field x k = Some v \<Longrightarrow> getitem_key x k = Inr v"
  by (cases x) (simp_all add: has_field_def dict_getitem_def)

lemma getitem_key_no_field:
  "has_field x k = None \<Longrightarrow> \<exists>e. getitem_key x k = Inl e"
  by (cases x) (simp_all add: has_field_def dict_getitem_def)

lemma getitem_0_first:
  "first_of_list x = Some v \<Longrightarrow> getitem_0 x = Inr v"
  by (cases x) (auto simp: first_of_list_def split: list.splits)

lemma getitem_0_then_key:
  "first_of_list x = None \<Longrightarrow> \<exists>e. bind_exc (getitem_0 x) (\<lambda>y. bind_exc (getitem_key y k) f) = Inl e"
proof (cases x)
  case (JStr s)
  then show ?thesis by (cases s) (simp_all add: bind_exc_def)
next
  case (JArr ys)
  assume "first_of_list x = None"
  with JArr show ?thesis by (cases ys) (simp_all add: bind_exc_def first_of_list_def)
qed (simp_all add: bind_exc_def)

lemma getitem_0_then_key_last:
  "first_of_list x = None \<Longrightarrow> \<exists>e. bind_exc (getitem_0 x) (\<lambda>y. getitem_key y k) = Inl e"
proof (cases x)
  case (JStr s)
  then show ?thesis by (cases s) (simp_all add: bind_exc_def)
next
  case (JArr ys)
  assume "first_of_list x = None"
  with JArr show ?thesis by (cases ys) (simp_all add: bind_exc_def first_of_list_def)
qed (simp_all add: bind_exc_def)

lemma text_of_data_shape:
  "spec_text_field data = Some t \<Longrightarrow> text_of_data data = Inr t"
  by (auto simp: spec_text_field_def text_of_data_def bind_exc_def getitem_key_field
      getitem_0_first split: option.splits)

lemma text_of_data_no_shape:
  assumes "spec_text_field data = None"
  shows "\<exists>e. text_of_data data = Inl e"
proof (cases "has_field data (ascii ''candidates'')")
  case None
  then obtain e where "getitem_key data (ascii ''candidates'') = Inl e"
    using getitem_key_no_field by blast
  then show ?thesis by (simp add: text_of_data_def bind_exc_def)
next
  case (Some cands)
  note c = getitem_key_field [OF Some]
  show ?thesis
  proof (cases "first_of_list cands")
    case None
    then obtain e where
      "bind_exc (getitem_0 cands) (\<lambda>y. bind_exc (getitem_key y (ascii ''content''))
         (\<lambda>content. bind_exc (getitem_key content (ascii ''parts'')) (\<lambda>parts.
            bind_exc (getitem_0 parts) (\<lambda>part. getitem_key part (ascii ''text''))))) = Inl e"
      using getitem_0_then_key by blast
    with c show ?thesis by (simp add: text_of_data_def) (simp add: bind_exc_def)
  next
    case (Some cand)
    note c0 = getitem_0_first [OF Some]
    note s0 = Some
    show ?thesis
    proof (cases "has_field cand (ascii ''content'')")
      case None
      then obtain e where "getitem_key cand (ascii ''content'') = Inl e"
        using getitem_key_no_field by blast
      with c c0 show ?thesis by (simp add: text_of_data_def bind_exc_def)
    next
      case (Some content)
      note ct = getitem_key_field [OF Some]
      note s1 = Some
      show ?thesis
      proof (cases "has_field content (ascii ''parts'')")
        case None
        then obtain e where "getitem_key content (ascii ''parts'') = Inl e"
          using getitem_key_no_field by blast
        with c c0 ct show ?thesis by (simp add: text_of_data_def bind_exc_def)
      next
        case (Some parts)
        note ps = getitem_key_field [OF Some]
        note s2 = Some
        show ?thesis
        proof (cases "first_of_list parts")
          case None
          then obtain e where
            "bind_exc (getitem_0 parts) (\<lambda>part. getitem_key part (ascii ''text'')) = Inl e"
            using getitem_0_then_key_last by blast
          with c c0 ct ps show ?thesis by (simp add: text_of_data_def) (simp add: bind_exc_def)
        next
          case (Some part)
          with assms \<open>has_field data (ascii ''candidates'') = Some cands\<close> s0 s1 s2
          have "has_field part (ascii ''text'') = None"
            by (simp add: spec_text_field_def)
          then obtain e where "getitem_key part (ascii ''text'') = Inl e"
            using getitem_key_no_field by blast
          with c c0 ct ps getitem_0_first [OF Some] show ?thesis
            by (simp add: text_of_data_def bind_exc_def)
        qed
      qed
    qed
  qed
qed


text \<open>
  Claim C9, as stated: any status outside 200 .. 299 makes \<open>generate\<close> fail. A response
  with status 300 and a body of the expected shape is returned as text:
  \<open>raise_for_status\<close> raises for 400 .. 599 only.
\<close>

theorem generate_status_300_returns:
  "\<not> (200 \<le> (300::nat) \<and> (300::nat) \<le> 299)
   \<and> generate (stub_post 300 (Inr (text_reply (ascii ''hi'')))) demo_client (ascii ''p'')
       = Inr (JStr (ascii ''hi''))"
  by (simp add: generate_text_reply)

lemma spec_text_field_text_reply: "spec_text_field (text_reply t) = Some (JStr t)"
  by (simp add: spec_text_field_def text_reply_def has_field_def first_of_list_def ascii_def)

lemma spec_text_field_empty: "spec_text_field (JObj []) = None"
  by (simp add: spec_text_field_def has_field_def)

text \<open>
  Claim C9, amended: \<open>generate\<close> fails exactly when the request raises (transport
  error, timeout), or the status of the response is from 400 to 599, or decoding the
  body raises, or the decoded body lacks the shape
  \<open>candidates[0].content.parts[0].text\<close>. Every failure is a \<open>ValueError\<close> whose text is
  \<open>API request failed: \<close> followed by the cause. With any other status and a body of
  that shape, \<open>generate\<close> returns the text field.
\<close>

theorem generate_fails_iff:
  "((\<exists>e. generate post self prompt = Inl e) \<longleftrightarrow>
      (\<exists>e. post (base_url self @ ascii ''?key='' @ api_key self) (request_body prompt) = Inl e)
      \<or> (\<exists>r. post (base_url self @ ascii ''?key='' @ api_key self) (request_body prompt) = Inr r
              \<and> (400 \<le> status_code r \<and> status_code r < 600
                  \<or> (\<exists>e. json_body r = Inl e)
                  \<or> (\<exists>data. json_body r = Inr data \<and> spec_text_field data = None))))
   \<and> (\<forall>e. generate post self prompt = Inl e \<longrightarrow>
          (\<exists>cause. e = Exc ValueError (ascii ''API request failed: '' @ cause)))
   \<and> (\<forall>r data t.
          post (base_url self @ ascii ''?key='' @ api_key self) (request_body prompt) = Inr r
          \<and> \<not> (400 \<le> status_code r \<and> status_code r < 600)
          \<and> json_body r = Inr data \<and> spec_text_field data = Some t \<longrightarrow>
          generate post self prompt = Inr t)"
proof -
  let ?p = "post (base_url self @ ascii ''?key='' @ api_key self) (request_body prompt)"
  have kind: "\<exists>cause. e = Exc ValueError (ascii ''API request failed: '' @ cause)"
    if "generate post self prompt = Inl e" for e
    using that by (cases "generate_try post self prompt") (auto simp: generate_def)
  have transport: "\<exists>e'. generate post self prompt = Inl e'" if "?p = Inl e" for e
    using that by (simp add: generate_def generate_try_def bind_exc_def)
  have status: "\<exists>e'. generate post self prompt = Inl e'"
    if "?p = Inr r" "400 \<le> status_code r \<and> status_code r < 600" for r
  proof -
    from that(2) obtain m where "raise_for_status r = Inl (Exc HTTPError m)"
      using raise_for_status_error by blast
    with that(1) show ?thesis
      by (simp add: generate_def generate_try_def bind_exc_def)
  qed
  have decode: "\<exists>e'. generate post self prompt = Inl e'"
    if "?p = Inr r" "json_body r = Inl e" for r e
    using that
    by (cases "raise_for_status r") (simp_all add: generate_def generate_try_def bind_exc_def)
  have shape: "\<exists>e'. generate post self prompt = Inl e'"
    if "?p = Inr r" "json_body r = Inr data" "spec_text_field data = None" for r data
  proof -
    from that(3) obtain e where "text_of_data data = Inl e"
      using text_of_data_no_shape by blast
    with that(1,2) show ?thesis
      by (cases "raise_for_status r") (simp_all add: generate_def generate_try_def bind_exc_def)
  qed
  have ok: "generate post self prompt = Inr t"
    if "?p = Inr r" "\<not> (400 \<le> status_code r \<and> status_code r < 600)"
      "json_body r = Inr data" "spec_text_field data = Some t" for r data t
    using that
    by (simp add: generate_def generate_try_def bind_exc_def raise_for_status_ok
        text_of_data_shape)
  have fails: "(\<exists>e. ?p = Inl e)
      \<or> (\<exists>r. ?p = Inr r
              \<and> (400 \<le> status_code r \<and> status_code r < 600
                  \<or> (\<exists>e. json_body r = Inl e)
                  \<or> (\<exists>data. json_body r = Inr data \<and> spec_text_field data = None)))"
    if f: "generate post self prompt = Inl e" for e
  proof (cases ?p)
    case (Inl a)
    then show ?thesis by blast
  next
    case (Inr r)
    show ?thesis
    proof (cases "400 \<le> status_code r \<and> status_code r < 600")
      case True
      with Inr show ?thesis by blast
    next
      case False
      note st = False
      show ?thesis
      proof (cases "json_body r")
        case (Inl a)
        with Inr show ?thesis by blast
      next
        case (Inr data)
        have "spec_text_field data = None"
        proof (cases "spec_text_field data")
          case (Some t)
          with \<open>?p = Inr r\<close> st Inr have "generate post self prompt = Inr t" by (intro ok)
          with f show ?thesis by simp
        qed simp
        with \<open>?p = Inr r\<close> Inr show ?thesis by blast
      qed
    qed
  qed
  show ?thesis
  proof (intro conjI iffI allI impI)
    assume "\<exists>e. generate post self prompt = Inl e"
    then show "(\<exists>e. ?p = Inl e)
      \<or> (\<exists>r. ?p = Inr r
              \<and> (400 \<le> status_code r \<and> status_code r < 600
                  \<or> (\<exists>e. json_body r = Inl e)
                  \<or> (\<exists>data. json_body r = Inr data \<and> spec_text_field data = None)))"
      using fails by blast
  next
    assume "(\<exists>e. ?p = Inl e)
      \<or> (\<exists>r. ?p = Inr r
              \<and> (400 \<le> status_code r \<and> status_code r < 600
                  \<or> (\<exists>e. json_body r = Inl e)
                  \<or> (\<exists>data. json_body r = Inr data \<and> spec_text_field data = None)))"
    then show "\<exists>e. generate post self prompt = Inl e"
      using transport status decode shape by blast
  next
    fix e assume "generate post self prompt = Inl e"
    then show "\<exists>cause. e = Exc ValueError (ascii ''API request failed: '' @ cause)"
      by (rule kind)
  next
    fix r data t
    assume "?p = Inr r \<and> \<not> (400 \<le> status_code r \<and> status_code r < 600)
          \<and> json_body r = Inr data \<and> spec_text_field data = Some t"
    then show "generate post self prompt = Inr t"
      using ok by blast
  qed
qed

theorem generate_fails_iff_witness:
  "generate failing_post demo_client (ascii ''p'')
     = Inl (Exc ValueError (ascii ''API request failed: connection refused''))
   \<and> (\<exists>cause. generate (stub_post 404 (Inr (text_reply (ascii ''hi'')))) demo_client (ascii ''p'')
         = Inl (Exc ValueError (ascii ''API request failed: '' @ cause)))
   \<and> (\<exists>cause. generate (stub_post 200 (Inr (JObj []))) demo_client (ascii ''p'')
         = Inl (Exc ValueError (ascii ''API request failed: '' @ cause)))
   \<and> (\<exists>cause. generate (stub_post 200 (Inl (Exc JSONDecodeError (ascii ''Expecting value''))))
                 demo_client (ascii ''p'')
         = Inl (Exc ValueError (ascii ''API request failed: '' @ cause)))
   \<and> generate (stub_post 200 (Inr (text_reply (ascii ''hi'')))) demo_client (ascii ''p'')
       = Inr (JStr (ascii ''hi''))"
proof -
  have a: "\<exists>cause. generate (stub_post 404 (Inr (text_reply (ascii ''hi'')))) demo_client (ascii ''p'')
         = Inl (Exc ValueError (ascii ''API request failed: '' @ cause))"
    using generate_fails_iff
      [of "stub_post 404 (Inr (text_reply (ascii ''hi'')))" demo_client "ascii ''p''"]
    by (simp add: stub_post_def) blast
  have b: "\<exists>cause. generate (stub_post 200 (Inr (JObj []))) demo_client (ascii ''p'')
         = Inl (Exc ValueError (ascii ''API request failed: '' @ cause))"
    using generate_fails_iff [of "stub_post 200 (Inr (JObj []))" demo_client "ascii ''p''"]
    by (simp add: stub_post_def spec_text_field_empty) blast
  have c: "\<exists>cause. generate (stub_post 200 (Inl (Exc JSONDecodeError (ascii ''Expecting value''))))
                 demo_client (ascii ''p'')
         = Inl (Exc ValueError (ascii ''API request failed: '' @ cause))"
    using generate_fails_iff
      [of "stub_post 200 (Inl (Exc JSONDecodeError (ascii ''Expecting value'')))" demo_client
          "ascii ''p''"]
    by (simp add: stub_post_def) blast
  have d: "generate (stub_post 200 (Inr (text_reply (ascii ''hi'')))) demo_client (ascii ''p'')
       = Inr (JStr (ascii ''hi''))"
    using generate_fails_iff
      [of "stub_post 200 (Inr (text_reply (ascii ''hi'')))" demo_client "ascii ''p''"]
    by (simp add: stub_post_def spec_text_field_text_reply)
  from a b c d show ?thesis
    by (simp add: generate_failing_post)
qed

end
